theory Spec2Isabelle
  imports Main "HOL-Library.Word" "HOL-Library.Sublist"
begin

unbundle bit_operations_syntax

section \<open>Strings and the Go string helpers used by the sources\<close>

text \<open>
  Go strings are byte sequences; they are modelled as \<open>string\<close> (lists of 8-bit
  characters).  The characters that cannot be written inside an Isabelle string literal
  get names.
\<close>

abbreviation (input) DQ :: char where "DQ \<equiv> CHR 0x22"
abbreviation (input) SQ :: char where "SQ \<equiv> CHR 0x27"
abbreviation (input) BSL :: char where "BSL \<equiv> CHR 0x5C"
abbreviation (input) BQT :: char where "BQT \<equiv> CHR 0x60"
abbreviation (input) NL :: char where "NL \<equiv> CHR 0x0A"

text \<open>\<open>strings.SplitN(s, sep, 2)\<close> for a one-byte separator: cut at the first
  occurrence, or return the string alone when the separator does not occur.\<close>

definition SplitN2 :: "string \<Rightarrow> char \<Rightarrow> string list" where
  "SplitN2 s sep =
     (if sep \<in> set s
      then [takeWhile (\<lambda>c. c \<noteq> sep) s, tl (dropWhile (\<lambda>c. c \<noteq> sep) s)]
      else [s])"

text \<open>\<open>strings.Replace(s, old, new, -1)\<close> for a one-byte \<open>old\<close>.\<close>

definition ReplaceChar :: "string \<Rightarrow> char \<Rightarrow> string \<Rightarrow> string" where
  "ReplaceChar s old new = concat (map (\<lambda>c. if c = old then new else [c]) s)"

text \<open>\<open>strings.HasPrefix\<close>.\<close>

definition HasPrefix :: "string \<Rightarrow> string \<Rightarrow> bool" where
  "HasPrefix s pre = (take (length pre) s = pre)"

text \<open>\<open>strings.Join(elems, sep)\<close>.\<close>

fun strings_Join :: "string list \<Rightarrow> string \<Rightarrow> string" where
  "strings_Join [] sep = []"
| "strings_Join [x] sep = x"
| "strings_Join (x # y # ys) sep = x @ sep @ strings_Join (y # ys) sep"

subsection \<open>The helpers of package \<open>internal/pkg/util/shell\<close>\<close>

text \<open>
  Modelled from the spec: \<open>shell.Escape\<close>, \<open>shell.ArgsQuoted\<close> and
  \<open>shell.EscapeSingleQuotes\<close> are functions of this repository whose source is not
  among the files under verification.  The spec describes their result as
  ``single-quoted, shell-escaped literals so that arguments containing spaces/quotes
  survive re-evaluation'' and ``a literal escaped value''.  \<open>Escape\<close> protects the
  four characters that stay special between shell double quotes (backslash, double
  quote, backquote, dollar) with a backslash; \<open>ArgsQuoted\<close> puts every argument
  between double quotes, escaped, separated by one space; \<open>EscapeSingleQuotes\<close>
  closes the single-quoted literal around every single quote and re-opens it.
\<close>

definition Escape :: "string \<Rightarrow> string" where
  "Escape s =
     ReplaceChar (ReplaceChar (ReplaceChar (ReplaceChar s BSL [BSL, BSL]) DQ [BSL, DQ])
       BQT [BSL, BQT]) (CHR ''$'') [BSL, CHR ''$'']"

definition ArgsQuoted :: "string list \<Rightarrow> string" where
  "ArgsQuoted a = strings_Join (map (\<lambda>v. [DQ] @ Escape v @ [DQ]) a) '' ''"

definition EscapeSingleQuotes :: "string \<Rightarrow> string" where
  "EscapeSingleQuotes s = ReplaceChar s SQ [SQ, DQ, SQ, DQ, SQ]"

subsection \<open>The \<open>%q\<close> verb\<close>

text \<open>
  \<open>fmt.Sprintf("%q", s)\<close> is \<open>strconv.Quote\<close> of the Go library.  The functions
  of the sources take it as the parameter \<open>q\<close>.  \<open>Quote_ascii\<close> is its behaviour on
  strings of ASCII bytes: the string between double quotes, backslash and double quote
  escaped, the control characters written as \<open>\a \b \f \n \r \t \v\<close> or
  \<open>\xhh\<close>.  (On bytes from 0x80 the library decodes UTF-8, which is left to the
  parameter; here such a byte is written \<open>\xhh\<close>, the library's rendering of a byte
  that is not part of a valid encoding.)
\<close>

definition hexdigit :: "nat \<Rightarrow> char" where
  "hexdigit n = (''0123456789abcdef'') ! (n mod 16)"

definition quote_byte :: "char \<Rightarrow> string" where
  "quote_byte c =
     (if c = DQ then [BSL, DQ]
      else if c = BSL then [BSL, BSL]
      else if c = CHR 0x07 then [BSL, CHR ''a'']
      else if c = CHR 0x08 then [BSL, CHR ''b'']
      else if c = CHR 0x0C then [BSL, CHR ''f'']
      else if c = NL then [BSL, CHR ''n'']
      else if c = CHR 0x0D then [BSL, CHR ''r'']
      else if c = CHR 0x09 then [BSL, CHR ''t'']
      else if c = CHR 0x0B then [BSL, CHR ''v'']
      else if of_char c < (0x20 :: nat) \<or> (0x7F :: nat) \<le> of_char c
        then [BSL, CHR ''x'', hexdigit (of_char c div 16), hexdigit (of_char c)]
      else [c])"

definition Quote_ascii :: "string \<Rightarrow> string" where
  "Quote_ascii s = [DQ] @ concat (map quote_byte s) @ [DQ]"

section \<open>\<open>insertEnv\<close>: the export statement of one \<open>Env\<close> entry\<close>

text \<open>
  The body of the loop of \<open>insertEnv\<close>: the value of the variable \<open>export\<close> for
  one element of \<open>imgConfig.Env\<close>.  The three \<open>Sprintf\<close> formats are written as
  concatenations.
\<close>

definition insertEnv_export :: "(string \<Rightarrow> string) \<Rightarrow> string \<Rightarrow> string" where
  "insertEnv_export q element =
     (let envParts = SplitN2 element (CHR ''='') in
      if length envParts = 1 then
        ''export '' @ envParts ! 0 @ ''='' @ [DQ] @ ''${'' @ envParts ! 0 @ '':-}'' @ [DQ, NL]
      else if envParts ! 0 = ''PATH'' then
        ''export '' @ envParts ! 0 @ ''='' @ q (Escape (envParts ! 1)) @ [NL]
      else
        ''export '' @ envParts ! 0 @ ''='' @ [DQ] @ ''${'' @ envParts ! 0 @ '':-''
          @ q (Escape (envParts ! 1)) @ ''}'' @ [DQ, NL])"


section \<open>Paths: \<open>filepath.Clean\<close> and \<open>filepath.Join\<close>\<close>

text \<open>\<open>strings.Split(s, sep)\<close> for a one-byte separator: \<open>n + 1\<close> fields for
  \<open>n\<close> separators, empty fields kept.\<close>

fun split_on :: "char \<Rightarrow> string \<Rightarrow> string list" where
  "split_on sep [] = [[]]"
| "split_on sep (x # xs) =
     (if x = sep then [] # split_on sep xs
      else (case split_on sep xs of [] \<Rightarrow> [[x]] | y # ys \<Rightarrow> (x # y) # ys))"

text \<open>
  \<open>filepath.Clean\<close> of the Go library, on the elements of the path: empty elements
  and \<open>.\<close> are dropped; \<open>..\<close> removes the element before it when there is one that
  is not itself \<open>..\<close>, is dropped at the root of a rooted path, and is kept otherwise.
  The empty result is \<open>.\<close>.
\<close>

fun clean_comps :: "bool \<Rightarrow> string list \<Rightarrow> string list \<Rightarrow> string list" where
  "clean_comps rooted out [] = out"
| "clean_comps rooted out (c # cs) =
     (if c = [] \<or> c = ''.'' then clean_comps rooted out cs
      else if c = ''..'' then
        (if out \<noteq> [] \<and> last out \<noteq> ''..'' then clean_comps rooted (butlast out) cs
         else if rooted then clean_comps rooted out cs
         else clean_comps rooted (out @ [''..'']) cs)
      else clean_comps rooted (out @ [c]) cs)"

definition Clean :: "string \<Rightarrow> string" where
  "Clean p =
     (if p = [] then ''.''
      else
        let rooted = (hd p = CHR ''/'');
            out = clean_comps rooted [] (split_on (CHR ''/'') p);
            s = (if rooted then ''/'' else []) @ strings_Join out ''/''
        in if s = [] then ''.'' else s)"

text \<open>\<open>filepath.Join\<close>: the empty leading elements are ignored, the rest is joined
  with the separator and cleaned; with no non-empty element the result is empty.\<close>

fun filepath_Join :: "string list \<Rightarrow> string" where
  "filepath_Join [] = []"
| "filepath_Join (e # es) =
     (if e = [] then filepath_Join es else Clean (strings_Join (e # es) ''/''))"

section \<open>The operating system: files, directories and symbolic links\<close>

text \<open>
  The sources act on the file system through the Go library (\<open>os.Stat\<close>,
  \<open>os.Chmod\<close>, \<open>os.MkdirAll\<close>, \<open>os.Symlink\<close>, \<open>os.OpenFile\<close>, ...).  The model
  of these calls is a tree of nodes addressed by their location (the list of names
  from the root): directories and regular files carry their mode bits and owner,
  a symbolic link carries its target text.  A path name is resolved element by
  element from the root or from the working directory; a symbolic link met on the
  way is replaced by its target; the last element is followed or not as the call
  requires.

  What the model leaves out: access checks from the permission bits (a call that the
  kernel would refuse with \<open>EACCES\<close> succeeds here; only the ownership test of
  \<open>chmod\<close> is kept, so that changing a mode can fail), the kernel's bound on the
  number of links followed in one lookup (a lookup fails with \<open>ELOOP\<close> exactly when
  it would never end), input/output errors, and every node kind other than
  directory, regular file and symbolic link.
\<close>

type_synonym path = "string list"
type_synonym FileMode = "32 word"

datatype node = Dir FileMode nat | File FileMode nat string | Link string

datatype errno = ENOENT | ENOTDIR | EEXIST | EISDIR | ELOOP | EPERM | EBADF

text \<open>The errors of the sources: the library's \<open>*PathError\<close> and \<open>*LinkError\<close>,
  \<open>io.EOF\<close>, an error of the gzip or tar reader, \<open>fmt.Errorf\<close> with a message
  prefix wrapping an error (\<open>"...: %v", err\<close>), and the error of the extraction
  path check (\<open>"%s: illegal extraction path", target\<close>).\<close>

datatype error =
    PathError string string errno
  | LinkError string string string errno
  | EOF
  | LibError string
  | Errorf string error
  | IllegalExtractionPath string

record os_state =
  nodes :: "path \<Rightarrow> node option"
  cwd :: path
  euid :: nat
  umask :: FileMode

text \<open>The bits of \<open>os.FileMode\<close>.  \<open>syscallMode\<close> keeps the bits that
  \<open>chmod\<close>, \<open>mkdir\<close> and \<open>open\<close> hand to the kernel.\<close>

definition ModeDir :: FileMode where "ModeDir = 0x80000000"
definition ModeSymlink :: FileMode where "ModeSymlink = 0x08000000"
definition ModeSetuid :: FileMode where "ModeSetuid = 0x00800000"
definition ModeSetgid :: FileMode where "ModeSetgid = 0x00400000"
definition ModeSticky :: FileMode where "ModeSticky = 0x00100000"
definition ModePerm :: FileMode where "ModePerm = 0x1FF"

definition syscallMode :: "FileMode \<Rightarrow> FileMode" where
  "syscallMode m = m AND (ModePerm OR ModeSetuid OR ModeSetgid OR ModeSticky)"

text \<open>\<open>FileInfo.Mode()\<close> of a node, and the two tests on it.\<close>

fun node_Mode :: "node \<Rightarrow> FileMode" where
  "node_Mode (Dir m u) = m OR ModeDir"
| "node_Mode (File m u b) = m"
| "node_Mode (Link t) = ModePerm OR ModeSymlink"

definition IsDir :: "FileMode \<Rightarrow> bool" where
  "IsDir m = (m AND ModeDir \<noteq> 0)"

definition IsRegular :: "FileMode \<Rightarrow> bool" where
  "IsRegular m = (m AND (ModeDir OR ModeSymlink) = 0)"

fun node_owner :: "node \<Rightarrow> nat option" where
  "node_owner (Dir m u) = Some u"
| "node_owner (File m u b) = Some u"
| "node_owner (Link t) = None"

fun set_mode :: "node \<Rightarrow> FileMode \<Rightarrow> node" where
  "set_mode (Dir m u) m' = Dir m' u"
| "set_mode (File m u b) m' = File m' u b"
| "set_mode (Link t) m' = Link t"

subsection \<open>Path resolution\<close>

text \<open>
  One step of a lookup: \<open>cur\<close> is the location reached so far (a directory),
  \<open>rest\<close> the elements still to resolve.  The step is over (\<open>Done\<close>) with an error
  or a location, or goes on (\<open>Next\<close>).  A missing last element yields its location
  (the caller sees that no node is there); a link in last position is returned
  itself when \<open>follow\<close> is off.
\<close>

datatype walk_state = Done "errno + path" | Next path "string list"

fun walk_step :: "(path \<Rightarrow> node option) \<Rightarrow> bool \<Rightarrow> path \<Rightarrow> string list \<Rightarrow> walk_state" where
  "walk_step fs follow cur [] = Done (Inr cur)"
| "walk_step fs follow cur (c # cs) =
     (if c = [] \<or> c = ''.'' then Next cur cs
      else if c = ''..'' then Next (butlast cur) cs
      else
        (case fs (cur @ [c]) of
           None \<Rightarrow> if cs = [] then Done (Inr (cur @ [c])) else Done (Inl ENOENT)
         | Some (Dir m u) \<Rightarrow> Next (cur @ [c]) cs
         | Some (File m u b) \<Rightarrow> if cs = [] then Done (Inr (cur @ [c])) else Done (Inl ENOTDIR)
         | Some (Link t) \<Rightarrow>
             if cs = [] \<and> \<not> follow then Done (Inr (cur @ [c]))
             else if t = [] then Done (Inl ENOENT)
             else Next (if hd t = CHR ''/'' then [] else cur) (split_on (CHR ''/'') t @ cs)))"

text \<open>The lookup repeats the step.  A lookup that runs forever (a cycle of links) has
  no value: \<open>None\<close>.\<close>

partial_function (option) walk ::
  "(path \<Rightarrow> node option) \<Rightarrow> bool \<Rightarrow> path \<Rightarrow> string list \<Rightarrow> (errno + path) option" where
  "walk fs follow cur rest =
     (case walk_step fs follow cur rest of
        Done r \<Rightarrow> Some r
      | Next cur' rest' \<Rightarrow> walk fs follow cur' rest')"

definition resolve :: "bool \<Rightarrow> string \<Rightarrow> os_state \<Rightarrow> errno + path" where
  "resolve follow name os =
     (if name = [] then Inl ENOENT
      else
        (case walk (nodes os) follow (if hd name = CHR ''/'' then [] else cwd os)
                (split_on (CHR ''/'') name) of
           None \<Rightarrow> Inl ELOOP
         | Some r \<Rightarrow> r))"

subsection \<open>The calls of package \<open>os\<close>\<close>

definition os_Stat :: "string \<Rightarrow> os_state \<Rightarrow> error + FileMode" where
  "os_Stat name os =
     (case resolve True name os of
        Inl e \<Rightarrow> Inl (PathError ''stat'' name e)
      | Inr loc \<Rightarrow>
          (case nodes os loc of
             None \<Rightarrow> Inl (PathError ''stat'' name ENOENT)
           | Some n \<Rightarrow> Inr (node_Mode n)))"

definition os_Lstat :: "string \<Rightarrow> os_state \<Rightarrow> error + FileMode" where
  "os_Lstat name os =
     (case resolve False name os of
        Inl e \<Rightarrow> Inl (PathError ''lstat'' name e)
      | Inr loc \<Rightarrow>
          (case nodes os loc of
             None \<Rightarrow> Inl (PathError ''lstat'' name ENOENT)
           | Some n \<Rightarrow> Inr (node_Mode n)))"

text \<open>\<open>chmod\<close>: only the owner of the node, or the superuser, may change its mode.\<close>

definition os_Chmod :: "string \<Rightarrow> FileMode \<Rightarrow> os_state \<Rightarrow> error option \<times> os_state" where
  "os_Chmod name mode os =
     (case resolve True name os of
        Inl e \<Rightarrow> (Some (PathError ''chmod'' name e), os)
      | Inr loc \<Rightarrow>
          (case nodes os loc of
             None \<Rightarrow> (Some (PathError ''chmod'' name ENOENT), os)
           | Some n \<Rightarrow>
               if euid os \<noteq> 0 \<and> node_owner n \<noteq> Some (euid os)
               then (Some (PathError ''chmod'' name EPERM), os)
               else (None, os\<lparr>nodes := (nodes os)(loc \<mapsto> set_mode n (syscallMode mode))\<rparr>)))"

definition os_Mkdir :: "string \<Rightarrow> FileMode \<Rightarrow> os_state \<Rightarrow> error option \<times> os_state" where
  "os_Mkdir name perm os =
     (case resolve False name os of
        Inl e \<Rightarrow> (Some (PathError ''mkdir'' name e), os)
      | Inr loc \<Rightarrow>
          (case nodes os loc of
             Some n \<Rightarrow> (Some (PathError ''mkdir'' name EEXIST), os)
           | None \<Rightarrow>
               (None, os\<lparr>nodes := (nodes os)
                  (loc \<mapsto> Dir (syscallMode perm AND NOT (umask os)) (euid os))\<rparr>)))"

definition os_Symlink :: "string \<Rightarrow> string \<Rightarrow> os_state \<Rightarrow> error option \<times> os_state" where
  "os_Symlink oldname newname os =
     (if oldname = [] then (Some (LinkError ''symlink'' oldname newname ENOENT), os)
      else
        (case resolve False newname os of
           Inl e \<Rightarrow> (Some (LinkError ''symlink'' oldname newname e), os)
         | Inr loc \<Rightarrow>
             (case nodes os loc of
                Some n \<Rightarrow> (Some (LinkError ''symlink'' oldname newname EEXIST), os)
              | None \<Rightarrow> (None, os\<lparr>nodes := (nodes os)(loc \<mapsto> Link oldname)\<rparr>))))"

text \<open>The flags of \<open>os.OpenFile\<close>.\<close>

definition O_RDONLY :: "32 word" where "O_RDONLY = 0x0"
definition O_WRONLY :: "32 word" where "O_WRONLY = 0x1"
definition O_RDWR :: "32 word" where "O_RDWR = 0x2"
definition O_CREATE :: "32 word" where "O_CREATE = 0x40"
definition O_TRUNC :: "32 word" where "O_TRUNC = 0x200"

definition has_flag :: "32 word \<Rightarrow> 32 word \<Rightarrow> bool" where
  "has_flag flag b = (flag AND b \<noteq> 0)"

text \<open>An open file: the location of its node and the offset of the next write.\<close>

record openfile =
  f_loc :: path
  f_off :: nat

text \<open>
  \<open>os.OpenFile\<close>: the name is resolved following links.  A missing node is created
  when \<open>O_CREATE\<close> is set, with the permission bits cleared by the umask and no
  content; a directory cannot be opened for writing, creation or truncation; an
  existing regular file is emptied when \<open>O_TRUNC\<close> is set and keeps its content otherwise.  The offset starts
  at 0.
\<close>

definition os_OpenFile ::
  "string \<Rightarrow> 32 word \<Rightarrow> FileMode \<Rightarrow> os_state \<Rightarrow> (error + openfile) \<times> os_state" where
  "os_OpenFile name flag perm os =
     (case resolve True name os of
        Inl e \<Rightarrow> (Inl (PathError ''open'' name e), os)
      | Inr loc \<Rightarrow>
          (case nodes os loc of
             None \<Rightarrow>
               if has_flag flag O_CREATE
               then (Inr \<lparr>f_loc = loc, f_off = 0\<rparr>,
                     os\<lparr>nodes := (nodes os)
                       (loc \<mapsto> File (syscallMode perm AND NOT (umask os)) (euid os) [])\<rparr>)
               else (Inl (PathError ''open'' name ENOENT), os)
           | Some (Dir m u) \<Rightarrow>
               if has_flag flag O_WRONLY \<or> has_flag flag O_RDWR \<or> has_flag flag O_CREATE
                  \<or> has_flag flag O_TRUNC
               then (Inl (PathError ''open'' name EISDIR), os)
               else (Inr \<lparr>f_loc = loc, f_off = 0\<rparr>, os)
           | Some (File m u b) \<Rightarrow>
               (Inr \<lparr>f_loc = loc, f_off = 0\<rparr>,
                if has_flag flag O_TRUNC
                then os\<lparr>nodes := (nodes os)(loc \<mapsto> File m u [])\<rparr> else os)
           | Some (Link t) \<Rightarrow> (Inl (PathError ''open'' name ELOOP), os)))"

definition os_Create :: "string \<Rightarrow> os_state \<Rightarrow> (error + openfile) \<times> os_state" where
  "os_Create name os = os_OpenFile name (O_RDWR OR O_CREATE OR O_TRUNC) 0x1B6 os"

text \<open>
  \<open>f.Write\<close> / \<open>f.WriteString\<close>: the bytes replace the content from the offset on
  (a gap before the offset is filled with zero bytes), what lies beyond the written
  range stays, and the offset advances.
\<close>

definition write_at :: "string \<Rightarrow> nat \<Rightarrow> string \<Rightarrow> string" where
  "write_at old off s =
     take off old @ replicate (off - length old) (CHR 0x00) @ s @ drop (off + length s) old"

definition file_Write :: "openfile \<Rightarrow> string \<Rightarrow> os_state \<Rightarrow> error option \<times> os_state \<times> openfile" where
  "file_Write f s os =
     (case nodes os (f_loc f) of
        Some (File m u b) \<Rightarrow>
          (None,
           os\<lparr>nodes := (nodes os)(f_loc f \<mapsto> File m u (write_at b (f_off f) s))\<rparr>,
           f\<lparr>f_off := f_off f + length s\<rparr>)
      | _ \<Rightarrow> (Some (PathError ''write'' [] EBADF), os, f))"

text \<open>
  \<open>os.MkdirAll\<close> of the Go library: nothing to do when the path is a directory, an
  error when it is something else; otherwise the parent (the path up to its last
  separator, when that leaves more than the root) is made first, then the directory
  itself; a failure of \<open>Mkdir\<close> is forgiven when the path is a directory after all.
\<close>

definition MkdirAll_parent :: "string \<Rightarrow> string option" where
  "MkdirAll_parent p =
     (let stripped = rev (dropWhile (\<lambda>c. c = CHR ''/'') (rev p));
          upto = rev (dropWhile (\<lambda>c. c \<noteq> CHR ''/'') (rev stripped))
      in if length upto > 1 then Some (butlast upto) else None)"

lemma MkdirAll_parent_shorter: "MkdirAll_parent p = Some q \<Longrightarrow> length q < length p"
proof -
  assume a: "MkdirAll_parent p = Some q"
  let ?stripped = "rev (dropWhile (\<lambda>c. c = CHR ''/'') (rev p))"
  let ?upto = "rev (dropWhile (\<lambda>c. c \<noteq> CHR ''/'') (rev ?stripped))"
  have 1: "length ?stripped \<le> length p"
    using length_dropWhile_le [of "\<lambda>c. c = CHR ''/''" "rev p"] by simp
  have 2: "length ?upto \<le> length ?stripped"
    using length_dropWhile_le [of "\<lambda>c. c \<noteq> CHR ''/''" "rev ?stripped"] by simp
  from a have "q = butlast ?upto" and "length ?upto > 1"
    by (auto simp: MkdirAll_parent_def Let_def split: if_splits)
  then show ?thesis using 1 2 by simp
qed

function os_MkdirAll :: "string \<Rightarrow> FileMode \<Rightarrow> os_state \<Rightarrow> error option \<times> os_state" where
  "os_MkdirAll path perm os =
     (case os_Stat path os of
        Inr m \<Rightarrow>
          if IsDir m then (None, os) else (Some (PathError ''mkdir'' path ENOTDIR), os)
      | Inl _ \<Rightarrow>
          (case (case MkdirAll_parent path of
                   Some parent \<Rightarrow> os_MkdirAll parent perm os
                 | None \<Rightarrow> (None, os)) of
             (Some e, os1) \<Rightarrow> (Some e, os1)
           | (None, os1) \<Rightarrow>
               (case os_Mkdir path perm os1 of
                  (None, os2) \<Rightarrow> (None, os2)
                | (Some e, os2) \<Rightarrow>
                    (case os_Lstat path os2 of
                       Inr m \<Rightarrow> if IsDir m then (None, os2) else (Some e, os2)
                     | Inl _ \<Rightarrow> (Some e, os2)))))"
  by pat_completeness auto
termination
  by (relation "measure (\<lambda>(path, perm, os). length path)")
     (auto dest: MkdirAll_parent_shorter)

section \<open>The base environment of a bundle (\<open>makeBaseEnv\<close>)\<close>

text \<open>The permission constants of the sources, \<open>0o755\<close>, \<open>0o644\<close> and
  \<open>0o200\<close>.\<close>

abbreviation (input) o755 :: FileMode where "o755 \<equiv> 0x1ED"
abbreviation (input) o644 :: FileMode where "o644 \<equiv> 0x1A4"
abbreviation (input) o200 :: FileMode where "o200 \<equiv> 0x80"

text \<open>The text of a file given by its lines, each ended by a newline.\<close>

definition lines_text :: "string list \<Rightarrow> string" where
  "lines_text ls = concat (map (\<lambda>l. l @ [NL]) ls)"

subsection \<open>The fixed contents of the scaffold files\<close>

definition execFileContent :: string where
  "execFileContent = lines_text
     [''#!/bin/sh'',
      [],
      ''for script in /.apptainer.d/env/*.sh; do'',
      ''    if [ -f '' @ [DQ] @ ''$script'' @ [DQ] @ '' ]; then'',
      ''        . '' @ [DQ] @ ''$script'' @ [DQ],
      ''    fi'',
      ''done'',
      [],
      ''exec '' @ [DQ] @ ''$@'' @ [DQ]]"

definition runFileContent :: string where
  "runFileContent = lines_text
     [''#!/bin/sh'',
      [],
      ''for script in /.apptainer.d/env/*.sh; do'',
      ''    if [ -f '' @ [DQ] @ ''$script'' @ [DQ] @ '' ]; then'',
      ''        . '' @ [DQ] @ ''$script'' @ [DQ],
      ''    fi'',
      ''done'',
      [],
      ''if test -n '' @ [DQ] @ ''${APPTAINER_APPNAME:-}'' @ [DQ] @ ''; then'',
      [],
      ''    if test -x '' @ [DQ] @ ''/scif/apps/${APPTAINER_APPNAME:-}/scif/runscript'' @ [DQ] @ ''; then'',
      ''        exec '' @ [DQ] @ ''/scif/apps/${APPTAINER_APPNAME:-}/scif/runscript'' @ [DQ] @ '' '' @ [DQ] @ ''$@'' @ [DQ],
      ''    else'',
      ''        echo '' @ [DQ] @ ''No Apptainer runscript for contained app: ${APPTAINER_APPNAME:-}'' @ [DQ],
      ''        exit 1'',
      ''    fi'',
      [],
      ''elif test -x '' @ [DQ] @ ''/.apptainer.d/runscript'' @ [DQ] @ ''; then'',
      ''    exec '' @ [DQ] @ ''/.apptainer.d/runscript'' @ [DQ] @ '' '' @ [DQ] @ ''$@'' @ [DQ],
      ''else'',
      ''    echo '' @ [DQ] @ ''No Apptainer runscript found, executing /bin/sh'' @ [DQ],
      ''    exec /bin/sh '' @ [DQ] @ ''$@'' @ [DQ],
      ''fi'']"

definition shellFileContent :: string where
  "shellFileContent = lines_text
     [''#!/bin/sh'',
      [],
      ''for script in /.apptainer.d/env/*.sh; do'',
      ''    if [ -f '' @ [DQ] @ ''$script'' @ [DQ] @ '' ]; then'',
      ''        . '' @ [DQ] @ ''$script'' @ [DQ],
      ''    fi'',
      ''done'',
      [],
      ''if test -n '' @ [DQ] @ ''$APPTAINER_SHELL'' @ [DQ] @ '' -a -x '' @ [DQ] @ ''$APPTAINER_SHELL'' @ [DQ] @ ''; then'',
      ''    exec $APPTAINER_SHELL '' @ [DQ] @ ''$@'' @ [DQ],
      [],
      ''    echo '' @ [DQ] @ ''ERROR: Failed running shell as defined by '' @ [SQ, BSL] @ ''$APPTAINER_SHELL'' @ [SQ, DQ] @ '' 1>&2'',
      ''    exit 1'',
      [],
      ''elif test -x /bin/bash; then'',
      ''    SHELL=/bin/bash'',
      ''    PS1='' @ [DQ] @ ''Apptainer $APPTAINER_NAME:'' @ [BSL, BSL] @ ''w> '' @ [DQ],
      ''    export SHELL PS1'',
      ''    exec /bin/bash --norc '' @ [DQ] @ ''$@'' @ [DQ],
      ''elif test -x /bin/sh; then'',
      ''    SHELL=/bin/sh'',
      ''    export SHELL'',
      ''    exec /bin/sh '' @ [DQ] @ ''$@'' @ [DQ],
      ''else'',
      ''    echo '' @ [DQ] @ ''ERROR: /bin/sh does not exist in container'' @ [DQ] @ '' 1>&2'',
      ''fi'',
      ''exit 1'']"

definition startFileContent :: string where
  "startFileContent = lines_text
     [''#!/bin/sh'',
      [],
      ''# if we are here start notify PID 1 to continue'',
      ''# DON'' @ [SQ] @ ''T REMOVE'',
      ''kill -CONT 1'',
      [],
      ''for script in /.apptainer.d/env/*.sh; do'',
      ''    if [ -f '' @ [DQ] @ ''$script'' @ [DQ] @ '' ]; then'',
      ''        . '' @ [DQ] @ ''$script'' @ [DQ],
      ''    fi'',
      ''done'',
      [],
      ''if test -x '' @ [DQ] @ ''/.apptainer.d/startscript'' @ [DQ] @ ''; then'',
      ''    exec '' @ [DQ] @ ''/.apptainer.d/startscript'' @ [DQ],
      ''fi'']"

definition testFileContent :: string where
  "testFileContent = lines_text
     [''#!/bin/sh'',
      [],
      ''for script in /.apptainer.d/env/*.sh; do'',
      ''    if [ -f '' @ [DQ] @ ''$script'' @ [DQ] @ '' ]; then'',
      ''        . '' @ [DQ] @ ''$script'' @ [DQ],
      ''    fi'',
      ''done'',
      [],
      [],
      ''if test -n '' @ [DQ] @ ''${APPTAINER_APPNAME:-}'' @ [DQ] @ ''; then'',
      [],
      ''    if test -x '' @ [DQ] @ ''/scif/apps/${APPTAINER_APPNAME:-}/scif/test'' @ [DQ] @ ''; then'',
      ''        exec '' @ [DQ] @ ''/scif/apps/${APPTAINER_APPNAME:-}/scif/test'' @ [DQ] @ '' '' @ [DQ] @ ''$@'' @ [DQ],
      ''    else'',
      ''        echo '' @ [DQ] @ ''No tests for contained app: ${APPTAINER_APPNAME:-}'' @ [DQ],
      ''        exit 1'',
      ''    fi'',
      ''elif test -x '' @ [DQ] @ ''/.apptainer.d/test'' @ [DQ] @ ''; then'',
      ''    exec '' @ [DQ] @ ''/.apptainer.d/test'' @ [DQ] @ '' '' @ [DQ] @ ''$@'' @ [DQ],
      ''else'',
      ''    echo '' @ [DQ] @ ''No test found in container, executing /bin/sh -c true'' @ [DQ],
      ''    exec /bin/sh -c true'',
      ''fi'']"

definition baseShFileContent :: string where
  "baseShFileContent = lines_text
     [''#!/bin/sh'',
      ''# '',
      ''# Copyright (c) 2017, ApptainerWare, LLC. All rights reserved.'',
      ''# Copyright (c) 2015-2017, Gregory M. Kurtzer. All rights reserved.'',
      ''# '',
      ''# Copyright (c) 2016-2017, The Regents of the University of California,'',
      ''# through Lawrence Berkeley National Laboratory (subject to receipt of any'',
      ''# required approvals from the U.S. Dept. of Energy).  All rights reserved.'',
      ''# '',
      ''# This software is licensed under a customized 3-clause BSD license.  Please'',
      ''# consult LICENSE.md file distributed with the sources of this project regarding'',
      ''# your rights to use or distribute this software.'',
      ''# '',
      ''# NOTICE.  This Software was developed under funding from the U.S. Department of'',
      ''# Energy and the U.S. Government consequently retains certain rights. As such,'',
      ''# the U.S. Government has been granted for itself and others acting on its'',
      ''# behalf a paid-up, nonexclusive, irrevocable, worldwide license in the Software'',
      ''# to reproduce, distribute copies to the public, prepare derivative works, and'',
      ''# perform publicly and display publicly, and to permit other to do so.'',
      ''# '',
      ''# '',
      [],
      []]"

definition environmentShFileContent :: string where
  "environmentShFileContent = lines_text
     [''#!/bin/sh'',
      ''# Custom environment shell code should follow'',
      []]"

definition appsShFileContent :: string where
  "appsShFileContent = lines_text
     [''#!/bin/sh'',
      ''#'',
      ''# Copyright (c) 2017, ApptainerWare, LLC. All rights reserved.'',
      ''#'',
      ''# See the COPYRIGHT.md file at the top-level directory of this distribution and at'',
      ''# https://github.com/apptainer/apptainer/blob/master/COPYRIGHT.md.'',
      ''#'',
      ''# This file is part of the Apptainer Linux container project. It is subject to the license'',
      ''# terms in the LICENSE.md file found in the top-level directory of this distribution and'',
      ''# at https://github.com/apptainer/apptainer/blob/master/LICENSE.md. No part'',
      ''# of Apptainer, including this file, may be copied, modified, propagated, or distributed'',
      ''# except according to the terms contained in the LICENSE.md file.'',
      [],
      [],
      ''if test -n '' @ [DQ] @ ''${APPTAINER_APPNAME:-}'' @ [DQ] @ ''; then'',
      [],
      ''    # The active app should be exported'',
      ''    export APPTAINER_APPNAME'',
      [],
      ''    if test -d '' @ [DQ] @ ''/scif/apps/${APPTAINER_APPNAME:-}/'' @ [DQ] @ ''; then'',
      ''        SCIF_APPS='' @ [DQ] @ ''/scif/apps'' @ [DQ],
      ''        SCIF_APPROOT='' @ [DQ] @ ''/scif/apps/${APPTAINER_APPNAME:-}'' @ [DQ],
      ''        export SCIF_APPROOT SCIF_APPS'',
      ''        PATH='' @ [DQ] @ ''/scif/apps/${APPTAINER_APPNAME:-}:$PATH'' @ [DQ],
      [],
      ''        # Automatically add application bin to path'',
      ''        if test -d '' @ [DQ] @ ''/scif/apps/${APPTAINER_APPNAME:-}/bin'' @ [DQ] @ ''; then'',
      ''            PATH='' @ [DQ] @ ''/scif/apps/${APPTAINER_APPNAME:-}/bin:$PATH'' @ [DQ],
      ''        fi'',
      [],
      ''        # Automatically add application lib to LD_LIBRARY_PATH'',
      ''        if test -d '' @ [DQ] @ ''/scif/apps/${APPTAINER_APPNAME:-}/lib'' @ [DQ] @ ''; then'',
      ''            LD_LIBRARY_PATH='' @ [DQ] @ ''/scif/apps/${APPTAINER_APPNAME:-}/lib:$LD_LIBRARY_PATH'' @ [DQ],
      ''            export LD_LIBRARY_PATH'',
      ''        fi'',
      [],
      ''        # Automatically source environment'',
      ''        if [ -f '' @ [DQ] @ ''/scif/apps/${APPTAINER_APPNAME:-}/scif/env/01-base.sh'' @ [DQ] @ '' ]; then'',
      ''            . '' @ [DQ] @ ''/scif/apps/${APPTAINER_APPNAME:-}/scif/env/01-base.sh'' @ [DQ],
      ''        fi'',
      ''        if [ -f '' @ [DQ] @ ''/scif/apps/${APPTAINER_APPNAME:-}/scif/env/90-environment.sh'' @ [DQ] @ '' ]; then'',
      ''            . '' @ [DQ] @ ''/scif/apps/${APPTAINER_APPNAME:-}/scif/env/90-environment.sh'' @ [DQ],
      ''        fi'',
      [],
      ''        export PATH'',
      ''    else'',
      ''        echo '' @ [DQ] @ ''Could not locate the container application: ${APPTAINER_APPNAME}'' @ [DQ],
      ''        exit 1'',
      ''    fi'',
      ''fi'',
      []]"

definition base99ShFileContent :: string where
  "base99ShFileContent = lines_text
     [''#!/bin/sh'',
      ''# '',
      ''# Copyright (c) 2017, ApptainerWare, LLC. All rights reserved.'',
      ''# Copyright (c) 2015-2017, Gregory M. Kurtzer. All rights reserved.'',
      ''# '',
      ''# Copyright (c) 2016-2017, The Regents of the University of California,'',
      ''# through Lawrence Berkeley National Laboratory (subject to receipt of any'',
      ''# required approvals from the U.S. Dept. of Energy).  All rights reserved.'',
      ''# '',
      ''# This software is licensed under a customized 3-clause BSD license.  Please'',
      ''# consult LICENSE.md file distributed with the sources of this project regarding'',
      ''# your rights to use or distribute this software.'',
      ''# '',
      ''# NOTICE.  This Software was developed under funding from the U.S. Department of'',
      ''# Energy and the U.S. Government consequently retains certain rights. As such,'',
      ''# the U.S. Government has been granted for itself and others acting on its'',
      ''# behalf a paid-up, nonexclusive, irrevocable, worldwide license in the Software'',
      ''# to reproduce, distribute copies to the public, prepare derivative works, and'',
      ''# perform publicly and display publicly, and to permit other to do so.'',
      ''# '',
      ''# '',
      [],
      [],
      ''if [ -z '' @ [DQ] @ ''$LD_LIBRARY_PATH'' @ [DQ] @ '' ]; then'',
      ''    LD_LIBRARY_PATH='' @ [DQ] @ ''/.apptainer.d/libs'' @ [DQ],
      ''else'',
      ''    LD_LIBRARY_PATH='' @ [DQ] @ ''$LD_LIBRARY_PATH:/.apptainer.d/libs'' @ [DQ],
      ''fi'',
      [],
      ''PS1='' @ [DQ] @ ''Apptainer> '' @ [DQ],
      ''export LD_LIBRARY_PATH PS1'']"

definition base99runtimevarsShFileContent :: string where
  "base99runtimevarsShFileContent = lines_text
     [''#!/bin/sh'',
      ''# Copyright (c) 2017-2019, Sylabs, Inc. All rights reserved.'',
      ''#'',
      ''# This software is licensed under a customized 3-clause BSD license.  Please'',
      ''# consult LICENSE.md file distributed with the sources of this project regarding'',
      ''# your rights to use or distribute this software.'',
      ''#'',
      ''#'',
      [],
      ''if [ -n '' @ [DQ] @ ''${SING_USER_DEFINED_PREPEND_PATH:-}'' @ [DQ] @ '' ]; then'',
      [CHR 0x09] @ ''PATH='' @ [DQ] @ ''${SING_USER_DEFINED_PREPEND_PATH}:${PATH}'' @ [DQ],
      ''fi'',
      [],
      ''if [ -n '' @ [DQ] @ ''${SING_USER_DEFINED_APPEND_PATH:-}'' @ [DQ] @ '' ]; then'',
      [CHR 0x09] @ ''PATH='' @ [DQ] @ ''${PATH}:${SING_USER_DEFINED_APPEND_PATH}'' @ [DQ],
      ''fi'',
      [],
      ''if [ -n '' @ [DQ] @ ''${SING_USER_DEFINED_PATH:-}'' @ [DQ] @ '' ]; then'',
      [CHR 0x09] @ ''PATH='' @ [DQ] @ ''${SING_USER_DEFINED_PATH}'' @ [DQ],
      ''fi'',
      [],
      ''unset SING_USER_DEFINED_PREPEND_PATH '' @ [BSL],
      [CHR 0x09] @ ''  SING_USER_DEFINED_APPEND_PATH '' @ [BSL],
      [CHR 0x09] @ ''  SING_USER_DEFINED_PATH'',
      [],
      ''export PATH'']"

definition runscriptFileContent :: string where
  "runscriptFileContent = lines_text
     [''#!/bin/sh'',
      [],
      ''echo '' @ [DQ] @ ''There is no runscript defined for this container'' @ [BSL] @ ''n'' @ [DQ] @ '';'']"

definition startscriptFileContent :: string where
  "startscriptFileContent = lines_text
     [''#!/bin/sh'']"

subsection \<open>The scaffold builders\<close>

text \<open>
  A sequence of calls, each followed by \<open>if err != nil { return err }\<close>: the calls
  run in order on the state the previous one left, and the first error ends the
  sequence.
\<close>

type_synonym os_call = "os_state \<Rightarrow> error option \<times> os_state"

fun run_all :: "os_call list \<Rightarrow> os_call" where
  "run_all [] os = (None, os)"
| "run_all (f # fs) os =
     (case f os of
        (Some e, os1) \<Rightarrow> (Some e, os1)
      | (None, os1) \<Rightarrow> run_all fs os1)"

definition makeDirs :: "string \<Rightarrow> os_call" where
  "makeDirs rootPath =
     run_all
       [os_MkdirAll (filepath_Join [rootPath, ''.apptainer.d'', ''libs'']) o755,
        os_MkdirAll (filepath_Join [rootPath, ''.apptainer.d'', ''actions'']) o755,
        os_MkdirAll (filepath_Join [rootPath, ''.apptainer.d'', ''env'']) o755,
        os_MkdirAll (filepath_Join [rootPath, ''dev'']) o755,
        os_MkdirAll (filepath_Join [rootPath, ''proc'']) o755,
        os_MkdirAll (filepath_Join [rootPath, ''root'']) o755,
        os_MkdirAll (filepath_Join [rootPath, ''var'', ''tmp'']) o755,
        os_MkdirAll (filepath_Join [rootPath, ''tmp'']) o755,
        os_MkdirAll (filepath_Join [rootPath, ''etc'']) o755,
        os_MkdirAll (filepath_Join [rootPath, ''sys'']) o755,
        os_MkdirAll (filepath_Join [rootPath, ''home'']) o755]"

text \<open>One block of \<open>makeSymlinks\<close>: the link is made when \<open>os.Stat\<close> of its path
  fails, and a failure to make it is returned.\<close>

definition symlink_unless_stat :: "string \<Rightarrow> string \<Rightarrow> os_call" where
  "symlink_unless_stat oldname newname os =
     (case os_Stat newname os of
        Inr _ \<Rightarrow> (None, os)
      | Inl _ \<Rightarrow> os_Symlink oldname newname os)"

definition makeSymlinks :: "string \<Rightarrow> os_call" where
  "makeSymlinks rootPath =
     run_all
       [symlink_unless_stat ''.apptainer.d/runscript'' (filepath_Join [rootPath, ''apptainer'']),
        symlink_unless_stat ''.apptainer.d/actions/run'' (filepath_Join [rootPath, ''.run'']),
        symlink_unless_stat ''.apptainer.d/actions/exec'' (filepath_Join [rootPath, ''.exec'']),
        symlink_unless_stat ''.apptainer.d/actions/test'' (filepath_Join [rootPath, ''.test'']),
        symlink_unless_stat ''.apptainer.d/actions/shell'' (filepath_Join [rootPath, ''.shell'']),
        symlink_unless_stat ''.apptainer.d/env/90-environment.sh''
          (filepath_Join [rootPath, ''environment''])]"

text \<open>
  Modelled from the spec: \<open>fs.IsFile\<close> (package \<open>internal/pkg/util/fs\<close>, not among
  the files under verification).  The spec reads ``if a target file already exists,
  its permission bits are first corrected'': the name resolves to a regular file.
\<close>

definition IsFile :: "string \<Rightarrow> os_state \<Rightarrow> bool" where
  "IsFile name os = (case os_Stat name os of Inr m \<Rightarrow> IsRegular m | Inl _ \<Rightarrow> False)"

definition makeFile :: "string \<Rightarrow> FileMode \<Rightarrow> string \<Rightarrow> os_call" where
  "makeFile name perm s os =
     (case (if IsFile name os then os_Chmod name perm os else (None, os)) of
        (Some e, os1) \<Rightarrow> (Some e, os1)
      | (None, os1) \<Rightarrow>
          (case os_OpenFile name (O_WRONLY OR O_CREATE OR O_TRUNC) perm os1 of
             (Inl e, os2) \<Rightarrow> (Some e, os2)
           | (Inr f, os2) \<Rightarrow>
               (case file_Write f s os2 of (err, os3, f') \<Rightarrow> (err, os3))))"

definition makeFiles :: "string \<Rightarrow> os_call" where
  "makeFiles rootPath =
     run_all
       [makeFile (filepath_Join [rootPath, ''etc'', ''hosts'']) o644 [],
        makeFile (filepath_Join [rootPath, ''etc'', ''resolv.conf'']) o644 [],
        makeFile (filepath_Join [rootPath, ''.apptainer.d'', ''actions'', ''exec'']) o755
          execFileContent,
        makeFile (filepath_Join [rootPath, ''.apptainer.d'', ''actions'', ''run'']) o755
          runFileContent,
        makeFile (filepath_Join [rootPath, ''.apptainer.d'', ''actions'', ''shell'']) o755
          shellFileContent,
        makeFile (filepath_Join [rootPath, ''.apptainer.d'', ''actions'', ''start'']) o755
          startFileContent,
        makeFile (filepath_Join [rootPath, ''.apptainer.d'', ''actions'', ''test'']) o755
          testFileContent,
        makeFile (filepath_Join [rootPath, ''.apptainer.d'', ''env'', ''01-base.sh'']) o755
          baseShFileContent,
        makeFile (filepath_Join [rootPath, ''.apptainer.d'', ''env'', ''90-environment.sh'']) o755
          environmentShFileContent,
        makeFile (filepath_Join [rootPath, ''.apptainer.d'', ''env'', ''95-apps.sh'']) o755
          appsShFileContent,
        makeFile (filepath_Join [rootPath, ''.apptainer.d'', ''env'', ''99-base.sh'']) o755
          base99ShFileContent,
        makeFile (filepath_Join [rootPath, ''.apptainer.d'', ''env'', ''99-runtimevars.sh'']) o755
          base99runtimevarsShFileContent,
        makeFile (filepath_Join [rootPath, ''.apptainer.d'', ''runscript'']) o755
          runscriptFileContent,
        makeFile (filepath_Join [rootPath, ''.apptainer.d'', ''startscript'']) o755
          startscriptFileContent]"

text \<open>
  \<open>makeBaseEnv\<close>: the root must resolve (\<open>os.Stat\<close>); when its mode lacks the
  owner-write bit, \<open>os.Chmod\<close> sets the mode to the old one with that bit added;
  then the directories, the links and the files are made.  Every error is wrapped
  with the message of its step.
\<close>

definition wrap_err :: "string \<Rightarrow> error option \<times> os_state \<Rightarrow> error option \<times> os_state" where
  "wrap_err msg r =
     (case r of (Some e, os) \<Rightarrow> (Some (Errorf msg e), os) | (None, os) \<Rightarrow> (None, os))"

definition makeBaseEnv :: "string \<Rightarrow> os_call" where
  "makeBaseEnv rootPath os =
     (case os_Stat rootPath os of
        Inl err \<Rightarrow> (Some (Errorf ''build: failed to stat rootPath: '' err), os)
      | Inr mode \<Rightarrow>
          (case (if mode AND o200 = 0
                 then wrap_err ''build: failed to make rootPath writable: ''
                        (os_Chmod rootPath (mode OR o200) os)
                 else (None, os)) of
             (Some e, os1) \<Rightarrow> (Some e, os1)
           | (None, os1) \<Rightarrow>
               run_all
                 [\<lambda>s. wrap_err ''build: failed to make environment dirs: '' (makeDirs rootPath s),
                  \<lambda>s. wrap_err ''build: failed to make environment symlinks: ''
                         (makeSymlinks rootPath s),
                  \<lambda>s. wrap_err ''build: failed to make environment files: ''
                         (makeFiles rootPath s)]
                 os1))"

section \<open>\<open>insertEnv\<close> and \<open>insertRunScript\<close>\<close>

text \<open>The loop of \<open>insertEnv\<close> over \<open>imgConfig.Env\<close>: one \<open>WriteString\<close> per
  element, in order; a failed write ends the function.\<close>

fun insertEnv_loop ::
  "(string \<Rightarrow> string) \<Rightarrow> openfile \<Rightarrow> string list \<Rightarrow> os_state
     \<Rightarrow> error option \<times> os_state \<times> openfile" where
  "insertEnv_loop q f [] os = (None, os, f)"
| "insertEnv_loop q f (element # rest) os =
     (case file_Write f (insertEnv_export q element) os of
        (Some e, os1, f1) \<Rightarrow> (Some e, os1, f1)
      | (None, os1, f1) \<Rightarrow> insertEnv_loop q f1 rest os1)"

definition insertEnv :: "(string \<Rightarrow> string) \<Rightarrow> string \<Rightarrow> string list \<Rightarrow> os_call" where
  "insertEnv q RootfsPath Env os =
     (case os_Create (RootfsPath @ ''/.apptainer.d/env/10-docker2apptainer.sh'') os of
        (Inl e, os1) \<Rightarrow> (Some e, os1)
      | (Inr f, os1) \<Rightarrow>
          (case file_Write f (''#!/bin/sh'' @ [NL]) os1 of
             (Some e, os2, f2) \<Rightarrow> (Some e, os2)
           | (None, os2, f2) \<Rightarrow>
               (case insertEnv_loop q f2 Env os2 of
                  (Some e, os3, f3) \<Rightarrow> (Some e, os3)
                | (None, os3, f3) \<Rightarrow>
                    os_Chmod (RootfsPath @ ''/.apptainer.d/env/10-docker2apptainer.sh'') o755 os3)))"

text \<open>The content of the regular file at a location, if there is one.\<close>

definition file_content :: "os_state \<Rightarrow> path \<Rightarrow> string option" where
  "file_content os loc = (case nodes os loc of Some (File m u b) \<Rightarrow> Some b | _ \<Rightarrow> None)"

text \<open>A bundle root \<open>/r\<close> holding the directories of the scaffold, owned by user
  1000, used to evaluate the builders on a concrete state.\<close>

definition os_bundle :: os_state where
  "os_bundle =
     \<lparr>nodes = map_of
        [([], Dir o755 0),
         ([''r''], Dir o755 1000),
         ([''r'', ''.apptainer.d''], Dir o755 1000),
         ([''r'', ''.apptainer.d'', ''env''], Dir o755 1000)],
      cwd = [], euid = 1000, umask = 0x12\<rparr>"

section \<open>The shell environment of the bootstrap scripts\<close>

text \<open>
  The scripts of the sources (the action script, \<open>99-runtimevars.sh\<close>) act on the
  variables of the shell that runs them.  A shell environment holds the values of
  the variables that are set, the names marked for export and the names marked
  read-only.  An assignment to, or an \<open>unset\<close> of, a read-only variable is refused
  and changes nothing.
\<close>

record sh_env =
  vars :: "string \<rightharpoonup> string"
  exported :: "string set"
  read_only :: "string set"

text \<open>\<open>${K}\<close> and \<open>${K:-}\<close>: the value, empty when the variable is unset.\<close>

definition sh_get :: "sh_env \<Rightarrow> string \<Rightarrow> string" where
  "sh_get env k = (case vars env k of None \<Rightarrow> [] | Some v \<Rightarrow> v)"

text \<open>\<open>test -v K\<close>.\<close>

definition sh_isset :: "sh_env \<Rightarrow> string \<Rightarrow> bool" where
  "sh_isset env k = (vars env k \<noteq> None)"

text \<open>\<open>K=v\<close>.\<close>

definition sh_assign :: "string \<Rightarrow> string \<Rightarrow> sh_env \<Rightarrow> sh_env" where
  "sh_assign k v env = (if k \<in> read_only env then env else env\<lparr>vars := (vars env)(k \<mapsto> v)\<rparr>)"

text \<open>\<open>unset K\<close>.\<close>

definition sh_unset :: "string \<Rightarrow> sh_env \<Rightarrow> sh_env" where
  "sh_unset k env =
     (if k \<in> read_only env then env
      else env\<lparr>vars := (vars env)(k := None), exported := exported env - {k}\<rparr>)"

text \<open>\<open>export K\<close> and \<open>export K=v\<close>.\<close>

definition sh_export :: "string \<Rightarrow> sh_env \<Rightarrow> sh_env" where
  "sh_export k env = env\<lparr>exported := insert k (exported env)\<rparr>"

definition sh_export_assign :: "string \<Rightarrow> string \<Rightarrow> sh_env \<Rightarrow> sh_env" where
  "sh_export_assign k v env =
     (if k \<in> read_only env then env else sh_export k (sh_assign k v env))"

text \<open>\<open>readonly K\<close>.\<close>

definition sh_readonly :: "string \<Rightarrow> sh_env \<Rightarrow> sh_env" where
  "sh_readonly k env = env\<lparr>read_only := insert k (read_only env)\<rparr>"

subsection \<open>\<open>99-runtimevars.sh\<close>\<close>

text \<open>
  The scaffold file \<open>base99runtimevarsShFileContent\<close>:
  \<^verbatim>\<open>
  if [ -n "${SING_USER_DEFINED_PREPEND_PATH:-}" ]; then
      PATH="${SING_USER_DEFINED_PREPEND_PATH}:${PATH}"
  fi
  if [ -n "${SING_USER_DEFINED_APPEND_PATH:-}" ]; then
      PATH="${PATH}:${SING_USER_DEFINED_APPEND_PATH}"
  fi
  if [ -n "${SING_USER_DEFINED_PATH:-}" ]; then
      PATH="${SING_USER_DEFINED_PATH}"
  fi
  unset SING_USER_DEFINED_PREPEND_PATH SING_USER_DEFINED_APPEND_PATH SING_USER_DEFINED_PATH
  export PATH
  \<close>
\<close>

abbreviation (input) PREPEND_PATH :: string where
  "PREPEND_PATH \<equiv> ''SING_USER_DEFINED_PREPEND_PATH''"
abbreviation (input) APPEND_PATH :: string where
  "APPEND_PATH \<equiv> ''SING_USER_DEFINED_APPEND_PATH''"
abbreviation (input) USER_PATH :: string where
  "USER_PATH \<equiv> ''SING_USER_DEFINED_PATH''"

text \<open>\<open>if [ -n "${K:-}" ]; then body; fi\<close>.\<close>

definition sh_if_nonempty :: "string \<Rightarrow> (sh_env \<Rightarrow> sh_env) \<Rightarrow> sh_env \<Rightarrow> sh_env" where
  "sh_if_nonempty k body env = (if sh_get env k \<noteq> [] then body env else env)"

definition base99runtimevarsSh :: "sh_env \<Rightarrow> sh_env" where
  "base99runtimevarsSh env =
     (let env1 = sh_if_nonempty PREPEND_PATH
                   (\<lambda>e. sh_assign ''PATH'' (sh_get e PREPEND_PATH @ '':'' @ sh_get e ''PATH'') e) env;
          env2 = sh_if_nonempty APPEND_PATH
                   (\<lambda>e. sh_assign ''PATH'' (sh_get e ''PATH'' @ '':'' @ sh_get e APPEND_PATH) e) env1;
          env3 = sh_if_nonempty USER_PATH
                   (\<lambda>e. sh_assign ''PATH'' (sh_get e USER_PATH) e) env2;
          env4 = sh_unset USER_PATH (sh_unset APPEND_PATH (sh_unset PREPEND_PATH env3))
      in sh_export ''PATH'' env4)"

text \<open>
  The variable \<open>RuntimeVars\<close> of \<open>action_scripts.go\<close>, the other text of the same
  file: each variable is unset inside the branch that applies it.
  \<^verbatim>\<open>
  if test -n "${SING_USER_DEFINED_PREPEND_PATH:-}"; then
      PATH="${SING_USER_DEFINED_PREPEND_PATH}:${PATH}"
      unset SING_USER_DEFINED_PREPEND_PATH
  fi
  ... (the same for the append and the override variable)
  export PATH
  \<close>
\<close>

definition RuntimeVars :: "sh_env \<Rightarrow> sh_env" where
  "RuntimeVars env =
     (let env1 = sh_if_nonempty PREPEND_PATH
                   (\<lambda>e. sh_unset PREPEND_PATH
                          (sh_assign ''PATH'' (sh_get e PREPEND_PATH @ '':'' @ sh_get e ''PATH'') e))
                   env;
          env2 = sh_if_nonempty APPEND_PATH
                   (\<lambda>e. sh_unset APPEND_PATH
                          (sh_assign ''PATH'' (sh_get e ''PATH'' @ '':'' @ sh_get e APPEND_PATH) e))
                   env1;
          env3 = sh_if_nonempty USER_PATH
                   (\<lambda>e. sh_unset USER_PATH (sh_assign ''PATH'' (sh_get e USER_PATH) e)) env2
      in sh_export ''PATH'' env3)"

subsection \<open>The action script: \<open>clear_env\<close> and \<open>restore_env\<close>\<close>

text \<open>
  Modelled from the spec: \<open>getallenv\<close>, \<open>getenvkey\<close> and \<open>unescape\<close> are
  builtins that the runtime adds to the interpreter of the action script; their
  source is not among the files under verification.  The spec says that the
  snapshot captures ``the complete inherited environment verbatim'': the snapshot
  \<open>__exported_env__\<close> is the list of the inherited entries, each a key and its
  value; \<open>getenvkey\<close> gives the key of an entry and \<open>unescape\<close> gives back
  \<open>key=value\<close>.
\<close>

type_synonym snapshot = "(string \<times> string) list"

text \<open>
  \<open>clear_env\<close>: the loop over the snapshot with its \<open>case\<close> on the key.
  \<^verbatim>\<open>
  PWD|HOME|OPTIND|UID|GID|APPTAINER_APPNAME|APPTAINER_SHELL)  ;;
  APPTAINER_NAME|APPTAINER_CONTAINER)  readonly "${key}" ;;
  *)  unset "${key}" ;;
  \<close>
\<close>

definition clear_env_step :: "string \<times> string \<Rightarrow> sh_env \<Rightarrow> sh_env" where
  "clear_env_step e env =
     (let key = fst e in
      if key \<in> {''PWD'', ''HOME'', ''OPTIND'', ''UID'', ''GID'', ''APPTAINER_APPNAME'',
                 ''APPTAINER_SHELL''} then env
      else if key \<in> {''APPTAINER_NAME'', ''APPTAINER_CONTAINER''} then sh_readonly key env
      else sh_unset key env)"

fun clear_env :: "snapshot \<Rightarrow> sh_env \<Rightarrow> sh_env" where
  "clear_env [] env = env"
| "clear_env (e # es) env = clear_env es (clear_env_step e env)"







section \<open>The archive extractor (\<open>extractArchive\<close>)\<close>

text \<open>
  The decoders of the Go library are parameters of the model.  \<open>tar_NewReader\<close>
  gives what \<open>tar.NewReader(r)\<close> delivers for the bytes of \<open>r\<close>: the entries that
  \<open>Next\<close> returns one after the other (a header, or \<open>nil\<close>; the bytes that reading
  the entry yields; the error that ends the reading of these bytes, if any), and
  the error of the call of \<open>Next\<close> after the last entry (\<open>io.EOF\<close> at the regular
  end of an archive).  \<open>gzip_NewReader\<close> gives the outcome of \<open>gzip.NewReader\<close> on
  the bytes left in the file: an error, or the number of bytes it has taken from
  the file for its own buffer.
\<close>

record tar_header =
  Name :: string
  Typeflag :: char
  Mode :: int

record tar_entry =
  header :: "tar_header option"
  body :: string
  body_err :: "error option"

record go_lib =
  gzip_NewReader :: "string \<Rightarrow> error + nat"
  tar_NewReader :: "string \<Rightarrow> tar_entry list \<times> error"

definition TypeReg :: char where "TypeReg = CHR ''0''"
definition TypeDir :: char where "TypeDir = CHR ''5''"

text \<open>\<open>io.Copy(f, tr)\<close>: the bytes read from the entry are written to the file; the
  error of the write or of the read is returned.\<close>

definition io_Copy :: "openfile \<Rightarrow> string \<Rightarrow> error option \<Rightarrow> os_call" where
  "io_Copy f bytes rerr os =
     (case file_Write f bytes os of
        (Some e, os1, f1) \<Rightarrow> (Some e, os1)
      | (None, os1, f1) \<Rightarrow> (rerr, os1))"

text \<open>The loop of \<open>extractArchive\<close> over the entries of the tar reader.\<close>

fun extract_loop :: "string \<Rightarrow> tar_entry list \<Rightarrow> error \<Rightarrow> os_call" where
  "extract_loop dst [] end_err os = (if end_err = EOF then (None, os) else (Some end_err, os))"
| "extract_loop dst (e # es) end_err os =
     (case header e of
        None \<Rightarrow> extract_loop dst es end_err os
      | Some h \<Rightarrow>
          (let target = filepath_Join [dst, Name h] in
           if \<not> HasPrefix target (Clean dst @ ''/'')
           then (Some (IllegalExtractionPath target), os)
           else if Typeflag h = TypeDir then
             (case os_Stat target os of
                Inr m \<Rightarrow> extract_loop dst es end_err os
              | Inl err0 \<Rightarrow>
                  (case os_MkdirAll target o755 os of
                     (Some err, os1) \<Rightarrow> (Some err, os1)
                   | (None, os1) \<Rightarrow> extract_loop dst es end_err os1))
           else if Typeflag h = TypeReg then
             (case os_OpenFile target (O_CREATE OR O_RDWR) (word_of_int (Mode h)) os of
                (Inl err, os1) \<Rightarrow> (Some err, os1)
              | (Inr f, os1) \<Rightarrow>
                  (case io_Copy f (body e) (body_err e) os1 of
                     (Some err, os2) \<Rightarrow> (Some err, os2)
                   | (None, os2) \<Rightarrow> extract_loop dst es end_err os2))
           else extract_loop dst es end_err os))"

text \<open>
  \<open>os.Open(src)\<close> followed by the first read of the buffered reader: the bytes of
  the file, or the error of opening it or of reading it (a directory opens but
  cannot be read).
\<close>

definition os_ReadFile :: "string \<Rightarrow> os_state \<Rightarrow> error + string" where
  "os_ReadFile name os =
     (case resolve True name os of
        Inl e \<Rightarrow> Inl (PathError ''open'' name e)
      | Inr loc \<Rightarrow>
          (case nodes os loc of
             None \<Rightarrow> Inl (PathError ''open'' name ENOENT)
           | Some (File m u b) \<Rightarrow> Inr b
           | Some (Dir m u) \<Rightarrow> Inl (PathError ''read'' name EISDIR)
           | Some (Link t) \<Rightarrow> Inl (PathError ''open'' name ELOOP)))"

text \<open>
  \<open>strings.Contains(http.DetectContentType(header), "x-gzip")\<close>: the sniffing table
  of the library has one entry with this content type, the signature
  \<open>1F 8B 08\<close> at the start of the data.
\<close>

definition sniff_gzip :: "string \<Rightarrow> bool" where
  "sniff_gzip hdr = (take 3 hdr = [CHR 0x1F, CHR 0x8B, CHR 0x08])"

text \<open>The size of the buffer of \<open>bufio.NewReader\<close>: the first read takes up to that
  many bytes from the file.\<close>

definition bufio_size :: nat where "bufio_size = 4096"

text \<open>
  \<open>extractArchive\<close>.  \<open>r\<close> is the buffered reader on the file; \<open>Peek(10)\<close> fails
  with \<open>io.EOF\<close> on a file shorter than 10 bytes.  In the branch for gzip the
  source declares a new variable \<open>r\<close> for the gzip reader (\<open>r, err := ...\<close> inside
  the block), made on the file \<open>f\<close> itself, whose first \<open>bufio_size\<close> bytes are
  already in the buffer of the outer \<open>r\<close>; after the block \<open>tar.NewReader(r)\<close>
  reads the outer \<open>r\<close>: the buffered bytes, then what the gzip reader has left in
  the file.
\<close>

definition extractArchive :: "go_lib \<Rightarrow> string \<Rightarrow> string \<Rightarrow> os_call" where
  "extractArchive lib src dst os =
     (case os_ReadFile src os of
        Inl err \<Rightarrow> (Some err, os)
      | Inr bytes \<Rightarrow>
          if length bytes < 10 then (Some EOF, os)
          else
            (let gzipped = sniff_gzip (take 10 bytes) in
             case (if gzipped
                   then (case gzip_NewReader lib (drop bufio_size bytes) of
                           Inl err \<Rightarrow> Inl err
                         | Inr n \<Rightarrow> Inr (take bufio_size bytes @ drop (bufio_size + n) bytes))
                   else Inr bytes) of
               Inl err \<Rightarrow> (Some err, os)
             | Inr r \<Rightarrow>
                 (case tar_NewReader lib r of
                    (entries, end_err) \<Rightarrow> extract_loop dst entries end_err os)))"

section \<open>Concrete states for evaluation\<close>

text \<open>A root directory \<open>/r\<close> of user 1000 without the owner-write bit (mode
  \<open>0o555\<close>), otherwise empty.\<close>

definition os_readonly_root :: os_state where
  "os_readonly_root =
     \<lparr>nodes = map_of [([], Dir o755 0), ([''r''], Dir 0x16D 1000)],
      cwd = [], euid = 1000, umask = 0x12\<rparr>"

text \<open>The same root owned by another user (user 0), for whom \<open>chmod\<close> is refused.\<close>

definition os_foreign_root :: os_state where
  "os_foreign_root =
     \<lparr>nodes = map_of [([], Dir o755 0), ([''r''], Dir 0x16D 0)],
      cwd = [], euid = 1000, umask = 0x12\<rparr>"

text \<open>A root \<open>/r\<close> in which \<open>.run\<close> is a symbolic link to \<open>tmp\<close>, which does not
  exist.\<close>

definition os_tmp_link :: os_state where
  "os_tmp_link =
     \<lparr>nodes = map_of
        [([], Dir o755 0), ([''r''], Dir o755 1000), ([''r'', ''.run''], Link ''tmp'')],
      cwd = [], euid = 1000, umask = 0x12\<rparr>"

text \<open>A root \<open>/r\<close> in which \<open>.run\<close> is a symbolic link to \<open>/nowhere\<close>, which does not
  exist and is not made by the scaffold.\<close>

definition os_dangling_link :: os_state where
  "os_dangling_link =
     \<lparr>nodes = map_of
        [([], Dir o755 0), ([''r''], Dir o755 1000), ([''r'', ''.run''], Link ''/nowhere'')],
      cwd = [], euid = 1000, umask = 0x12\<rparr>"

text \<open>
  An instance of the library for evaluation: the tar reader delivers the given
  entries and then \<open>io.EOF\<close>; \<open>gzip.NewReader\<close> returns \<open>io.EOF\<close> on an exhausted
  file, an error on what is not a gzip header, and otherwise takes one buffer.
\<close>

definition lib_with :: "tar_entry list \<Rightarrow> go_lib" where
  "lib_with entries =
     \<lparr>gzip_NewReader =
        (\<lambda>bs. if bs = [] then Inl EOF
              else if length bs < 10 then Inl (LibError ''unexpected EOF'')
              else if \<not> sniff_gzip bs then Inl (LibError ''gzip: invalid header'')
              else Inr (min bufio_size (length bs))),
      tar_NewReader = (\<lambda>r. (entries, EOF))\<rparr>"

definition reg_entry :: "string \<Rightarrow> string \<Rightarrow> tar_entry" where
  "reg_entry name bytes =
     \<lparr>header = Some \<lparr>Name = name, Typeflag = TypeReg, Mode = 420\<rparr>, body = bytes,
      body_err = None\<rparr>"

text \<open>An empty destination \<open>/d\<close> and a source file \<open>/a.tar\<close> (its bytes stand for an
  archive that is not compressed), and the same with a source \<open>/a.tgz\<close> of twenty
  bytes that starts with the gzip signature.\<close>

definition os_archive :: os_state where
  "os_archive =
     \<lparr>nodes = map_of
        [([], Dir o755 0), ([''d''], Dir o755 1000),
         ([''a.tar''], File o644 1000 ''0123456789abcdef'')],
      cwd = [], euid = 1000, umask = 0x12\<rparr>"

definition os_gz_archive :: os_state where
  "os_gz_archive =
     \<lparr>nodes = map_of
        [([], Dir o755 0), ([''d''], Dir o755 1000),
         ([''a.tgz''], File o644 1000 ([CHR 0x1F, CHR 0x8B, CHR 0x08] @ ''0123456789abcdefg''))],
      cwd = [], euid = 1000, umask = 0x12\<rparr>"

chapter \<open>Properties\<close>

lemma SplitN2_no_sep: "sep \<notin> set s \<Longrightarrow> SplitN2 s sep = [s]"
  by (simp add: SplitN2_def)

lemma SplitN2_sep: "sep \<notin> set k \<Longrightarrow> SplitN2 (k @ sep # v) sep = [k, v]"
  by (induction k) (auto simp: SplitN2_def)

section \<open>Evaluation rules of the model\<close>

lemma walk_Nil [simp]: "walk fs follow cur [] = Some (Inr cur)"
  by (subst walk.simps) simp
lemma walk_Cons [simp]: "walk fs follow cur (c # cs) =
     (case walk_step fs follow cur (c # cs) of
        Done r \<Rightarrow> Some r
      | Next cur' rest' \<Rightarrow> walk fs follow cur' rest')"
  by (subst walk.simps) simp

lemmas mode_defs = ModeDir_def ModeSymlink_def ModeSetuid_def ModeSetgid_def ModeSticky_def
  ModePerm_def syscallMode_def IsDir_def IsRegular_def
lemmas flag_defs = has_flag_def O_RDONLY_def O_WRONLY_def O_RDWR_def O_CREATE_def O_TRUNC_def
lemmas os_defs = resolve_def os_Stat_def os_Lstat_def os_Chmod_def os_Mkdir_def os_Symlink_def
  os_OpenFile_def os_Create_def file_Write_def write_at_def file_content_def

section \<open>The environment file written by \<open>insertEnv\<close>\<close>

lemma file_Write_File:
  "nodes os (f_loc f) = Some (File m u b) \<Longrightarrow>
   file_Write f s os =
     (None, os\<lparr>nodes := (nodes os)(f_loc f \<mapsto> File m u (write_at b (f_off f) s))\<rparr>,
      f\<lparr>f_off := f_off f + length s\<rparr>)"
  by (simp add: file_Write_def)

lemma write_at_end: "write_at b (length b) s = b @ s"
  by (simp add: write_at_def)

lemma insertEnv_loop_appends:
  "nodes os (f_loc f) = Some (File m u b) \<Longrightarrow> f_off f = length b \<Longrightarrow>
   \<exists>os' f'. insertEnv_loop q f env os = (None, os', f') \<and>
     nodes os' (f_loc f) = Some (File m u (b @ concat (map (insertEnv_export q) env)))"
proof (induction env arbitrary: os f b)
  case Nil
  then show ?case by simp
next
  case (Cons e env)
  let ?os1 = "os\<lparr>nodes := (nodes os)(f_loc f \<mapsto> File m u (b @ insertEnv_export q e))\<rparr>"
  let ?f1 = "f\<lparr>f_off := f_off f + length (insertEnv_export q e)\<rparr>"
  have w: "file_Write f (insertEnv_export q e) os = (None, ?os1, ?f1)"
    using Cons.prems by (simp add: file_Write_File write_at_end)
  have "\<exists>os' f'. insertEnv_loop q ?f1 env ?os1 = (None, os', f') \<and>
     nodes os' (f_loc ?f1) = Some (File m u ((b @ insertEnv_export q e) @ concat (map (insertEnv_export q) env)))"
    by (rule Cons.IH) (use Cons.prems in simp_all)
  then show ?case using w by auto
qed

lemma os_OpenFile_trunc_ok:
  assumes "os_OpenFile name flag perm os = (Inr f, os1)" "has_flag flag O_TRUNC"
  shows "resolve True name os = Inr (f_loc f) \<and> f_off f = 0 \<and>
         (\<exists>m u. nodes os1 (f_loc f) = Some (File m u []))"
  using assms
  by (auto simp: os_OpenFile_def split: sum.splits option.splits node.splits if_splits)

lemma os_Chmod_content: "os_Chmod name mode os = (r, os') \<Longrightarrow> file_content os' loc = file_content os loc"
  by (cases "nodes os loc")
     (auto simp: os_Chmod_def file_content_def split: sum.splits option.splits if_splits node.splits
           elim!: set_mode.elims)


text \<open>
  Claim C3, as amended.  When \<open>insertEnv\<close> succeeds, the file
  \<open>.apptainer.d/env/10-docker2apptainer.sh\<close> holds the line \<open>#!/bin/sh\<close> followed by
  one export statement per entry of \<open>Env\<close>, in the order of the list.  A bare entry
  \<open>K\<close> (no \<open>=\<close>) gives \<open>export K="${K:-}"\<close>; an entry \<open>PATH=v\<close> gives the
  unconditional \<open>export PATH=\<close> followed by the escaped value formatted with \<open>%q\<close>
  (so between double quotes); any other entry \<open>K=v\<close> gives \<open>export K="${K:-\<close>,
  the escaped value formatted with \<open>%q\<close> (so again between double quotes, inside the
  braces), and \<open>}"\<close>.
\<close>

theorem insertEnv_exports:
  "(insertEnv q root env os = (None, os') \<longrightarrow>
     (\<exists>loc. resolve True (root @ ''/.apptainer.d/env/10-docker2apptainer.sh'') os = Inr loc \<and>
        file_content os' loc =
          Some (''#!/bin/sh'' @ [NL] @ concat (map (insertEnv_export q) env)))) \<and>
   (\<forall>k. CHR ''='' \<notin> set k \<longrightarrow>
      insertEnv_export q k = ''export '' @ k @ ''='' @ [DQ] @ ''${'' @ k @ '':-}'' @ [DQ, NL]) \<and>
   (\<forall>v. insertEnv_export q (''PATH='' @ v) = ''export PATH='' @ q (Escape v) @ [NL]) \<and>
   (\<forall>k v. CHR ''='' \<notin> set k \<longrightarrow> k \<noteq> ''PATH'' \<longrightarrow>
      insertEnv_export q (k @ ''='' @ v) =
        ''export '' @ k @ ''='' @ [DQ] @ ''${'' @ k @ '':-'' @ q (Escape v) @ ''}'' @ [DQ, NL])"
proof (intro conjI impI allI)
  let ?name = "root @ ''/.apptainer.d/env/10-docker2apptainer.sh''"
  assume run: "insertEnv q root env os = (None, os')"
  from run obtain f os1 where cr: "os_Create ?name os = (Inr f, os1)"
    by (auto simp: insertEnv_def split: prod.splits sum.splits)
  then have res: "resolve True ?name os = Inr (f_loc f)" and off: "f_off f = 0"
    and "\<exists>m u. nodes os1 (f_loc f) = Some (File m u [])"
    using os_OpenFile_trunc_ok [of ?name _ _ os f os1]
    by (auto simp: os_Create_def flag_defs)
  then obtain m u where n1: "nodes os1 (f_loc f) = Some (File m u [])" by blast
  let ?hdr = "''#!/bin/sh'' @ [NL]"
  let ?os2 = "os1\<lparr>nodes := (nodes os1)(f_loc f \<mapsto> File m u ?hdr)\<rparr>"
  let ?f2 = "f\<lparr>f_off := f_off f + length ?hdr\<rparr>"
  have w: "file_Write f ?hdr os1 = (None, ?os2, ?f2)"
    using n1 off by (simp add: file_Write_File write_at_def)
  have "\<exists>os3 f3. insertEnv_loop q ?f2 env ?os2 = (None, os3, f3) \<and>
     nodes os3 (f_loc ?f2) = Some (File m u (?hdr @ concat (map (insertEnv_export q) env)))"
    by (rule insertEnv_loop_appends) (use off in simp_all)
  then obtain os3 f3 where lp: "insertEnv_loop q ?f2 env ?os2 = (None, os3, f3)"
    and n3: "nodes os3 (f_loc f) = Some (File m u (?hdr @ concat (map (insertEnv_export q) env)))"
    by auto
  from run cr w lp have "os_Chmod ?name o755 os3 = (None, os')"
    by (simp add: insertEnv_def)
  then have "file_content os' (f_loc f) = file_content os3 (f_loc f)"
    by (rule os_Chmod_content)
  with n3 res show "\<exists>loc. resolve True ?name os = Inr loc \<and>
        file_content os' loc = Some (''#!/bin/sh'' @ [NL] @ concat (map (insertEnv_export q) env))"
    by (simp add: file_content_def)
next
  fix k :: string assume "CHR ''='' \<notin> set k"
  then show "insertEnv_export q k = ''export '' @ k @ ''='' @ [DQ] @ ''${'' @ k @ '':-}'' @ [DQ, NL]"
    by (simp add: insertEnv_export_def SplitN2_no_sep)
next
  fix v
  have "SplitN2 (''PATH'' @ CHR ''='' # v) (CHR ''='') = [''PATH'', v]"
    by (rule SplitN2_sep) simp
  then show "insertEnv_export q (''PATH='' @ v) = ''export PATH='' @ q (Escape v) @ [NL]"
    by (simp add: insertEnv_export_def)
next
  fix k v :: string assume "CHR ''='' \<notin> set k" "k \<noteq> ''PATH''"
  then show "insertEnv_export q (k @ ''='' @ v) =
        ''export '' @ k @ ''='' @ [DQ] @ ''${'' @ k @ '':-'' @ q (Escape v) @ ''}'' @ [DQ, NL]"
    using SplitN2_sep [of "CHR ''=''" k v] by (simp add: insertEnv_export_def)
qed

text \<open>The three entries of the claim, on the bundle \<open>/r\<close>.\<close>

lemma insertEnv_bundle_eval:
  "insertEnv Quote_ascii ''/r'' [''PATH=/a:/b'', ''FOO=bar'', ''BAZ''] os_bundle =
     (None, snd (insertEnv Quote_ascii ''/r'' [''PATH=/a:/b'', ''FOO=bar'', ''BAZ''] os_bundle))"
  by (simp add: insertEnv_def os_defs flag_defs mode_defs os_bundle_def)

theorem insertEnv_exports_witness:
  "file_content (snd (insertEnv Quote_ascii ''/r'' [''PATH=/a:/b'', ''FOO=bar'', ''BAZ''] os_bundle))
     [''r'', ''.apptainer.d'', ''env'', ''10-docker2apptainer.sh''] =
   Some (lines_text
     [''#!/bin/sh'',
      ''export PATH='' @ [DQ] @ ''/a:/b'' @ [DQ],
      ''export FOO='' @ [DQ] @ ''${FOO:-'' @ [DQ] @ ''bar'' @ [DQ] @ ''}'' @ [DQ],
      ''export BAZ='' @ [DQ] @ ''${BAZ:-}'' @ [DQ]])"
proof -
  have r: "resolve True (''/r'' @ ''/.apptainer.d/env/10-docker2apptainer.sh'') os_bundle =
        Inr [''r'', ''.apptainer.d'', ''env'', ''10-docker2apptainer.sh'']"
    by (simp add: resolve_def os_bundle_def)
  have l: "concat (map (insertEnv_export Quote_ascii) [''PATH=/a:/b'', ''FOO=bar'', ''BAZ'']) =
    lines_text [''export PATH='' @ [DQ] @ ''/a:/b'' @ [DQ],
      ''export FOO='' @ [DQ] @ ''${FOO:-'' @ [DQ] @ ''bar'' @ [DQ] @ ''}'' @ [DQ],
      ''export BAZ='' @ [DQ] @ ''${BAZ:-}'' @ [DQ]]"
    by (simp add: insertEnv_export_def SplitN2_def Escape_def ReplaceChar_def Quote_ascii_def
        quote_byte_def lines_text_def)
  show ?thesis
    using insertEnv_exports [of Quote_ascii "''/r''" "[''PATH=/a:/b'', ''FOO=bar'', ''BAZ'']" os_bundle
        "snd (insertEnv Quote_ascii ''/r'' [''PATH=/a:/b'', ''FOO=bar'', ''BAZ''] os_bundle)"]
      insertEnv_bundle_eval r l
    by (simp add: lines_text_def)
qed

text \<open>The entry \<open>FOO=bar\<close> does not yield \<open>export FOO="${FOO:-bar}"\<close>: the
  default is written between double quotes.\<close>

theorem insertEnv_default_counterexample:
  "file_content (snd (insertEnv Quote_ascii ''/r'' [''FOO=bar''] os_bundle))
     [''r'', ''.apptainer.d'', ''env'', ''10-docker2apptainer.sh''] \<noteq>
   Some (lines_text [''#!/bin/sh'', ''export FOO='' @ [DQ] @ ''${FOO:-bar}'' @ [DQ]])"
  by (simp add: insertEnv_def os_defs flag_defs mode_defs os_bundle_def lines_text_def
      insertEnv_export_def SplitN2_def Escape_def ReplaceChar_def Quote_ascii_def quote_byte_def)

section \<open>The runtime-variables scripts\<close>

lemmas sh_defs = sh_get_def sh_isset_def sh_assign_def sh_unset_def sh_export_def
  sh_export_assign_def sh_readonly_def

lemma vars_sh_export: "vars (sh_export k env) = vars env"
  by (simp add: sh_export_def)

lemma vars_sh_unset: "vars (sh_unset k env) k' =
    (if k \<in> read_only env then vars env k' else if k' = k then None else vars env k')"
  by (simp add: sh_unset_def)

lemma ro_sh_unset: "read_only (sh_unset k env) = read_only env"
  by (simp add: sh_unset_def)

lemma ro_assign_step:
  "read_only (sh_if_nonempty k (\<lambda>e. sh_assign p (f e) e) env) = read_only env"
  by (simp add: sh_if_nonempty_def sh_assign_def)

lemma ro_assign_unset_step:
  "read_only (sh_if_nonempty k (\<lambda>e. sh_unset k' (sh_assign p (f e) e)) env) = read_only env"
  by (simp add: sh_if_nonempty_def sh_assign_def sh_unset_def)

lemma vars_assign_step:
  "vars (sh_if_nonempty k (\<lambda>e. sh_assign p (f e) e) env) k' =
     (if k' = p \<and> sh_get env k \<noteq> [] \<and> p \<notin> read_only env then Some (f env) else vars env k')"
  by (simp add: sh_if_nonempty_def sh_assign_def)

lemma vars_assign_unset_step:
  "vars (sh_if_nonempty k (\<lambda>e. sh_unset k' (sh_assign p (f e) e)) env) x =
     (if sh_get env k = [] then vars env x
      else if x = k' \<and> k' \<notin> read_only env then None
      else if x = p \<and> p \<notin> read_only env then Some (f env)
      else vars env x)"
  by (simp add: sh_if_nonempty_def sh_assign_def sh_unset_def)

lemma sh_get_vars: "sh_get env k = (case vars env k of None \<Rightarrow> [] | Some v \<Rightarrow> v)"
  by (simp add: sh_get_def)

lemmas step_simps = vars_sh_export vars_sh_unset ro_sh_unset ro_assign_step ro_assign_unset_step
  vars_assign_step vars_assign_unset_step

lemma base99_unsets:
  assumes "{''PATH'', PREPEND_PATH, APPEND_PATH, USER_PATH} \<inter> read_only env = {}"
  shows "vars (base99runtimevarsSh env) PREPEND_PATH = None"
    and "vars (base99runtimevarsSh env) APPEND_PATH = None"
    and "vars (base99runtimevarsSh env) USER_PATH = None"
  using assms by (simp_all add: base99runtimevarsSh_def Let_def step_simps)

lemma base99_prepend:
  assumes "{''PATH'', PREPEND_PATH, APPEND_PATH, USER_PATH} \<inter> read_only env = {}"
    and "z \<noteq> []" "vars env PREPEND_PATH = Some z" "vars env APPEND_PATH = None"
      "vars env USER_PATH = None"
  shows "vars (base99runtimevarsSh env) ''PATH'' = Some (z @ '':'' @ sh_get env ''PATH'')"
  using assms by (simp add: base99runtimevarsSh_def Let_def step_simps sh_get_vars)

lemma RuntimeVars_prepend:
  assumes "{''PATH'', PREPEND_PATH, APPEND_PATH, USER_PATH} \<inter> read_only env = {}"
    and "z \<noteq> []" "vars env PREPEND_PATH = Some z" "vars env APPEND_PATH = None"
      "vars env USER_PATH = None"
  shows "vars (RuntimeVars env) ''PATH'' = Some (z @ '':'' @ sh_get env ''PATH'')"
    and "vars (RuntimeVars env) PREPEND_PATH = None"
  using assms by (simp_all add: RuntimeVars_def Let_def step_simps sh_get_vars)

lemma runtimevars_noop:
  assumes "vars env PREPEND_PATH = None" "vars env APPEND_PATH = None" "vars env USER_PATH = None"
  shows "vars (base99runtimevarsSh env) = vars env" and "vars (RuntimeVars env) = vars env"
  using assms
  by (simp_all add: base99runtimevarsSh_def RuntimeVars_def Let_def step_simps sh_get_vars fun_eq_iff)

lemma RuntimeVars_after:
  assumes "{''PATH'', PREPEND_PATH, APPEND_PATH, USER_PATH} \<inter> read_only env = {}"
  shows "vars (RuntimeVars env) PREPEND_PATH = None \<or>
           (vars env PREPEND_PATH = Some [] \<and> vars (RuntimeVars env) PREPEND_PATH = Some [])"
    and "vars (RuntimeVars env) APPEND_PATH = None \<or>
           (vars env APPEND_PATH = Some [] \<and> vars (RuntimeVars env) APPEND_PATH = Some [])"
    and "vars (RuntimeVars env) USER_PATH = None \<or>
           (vars env USER_PATH = Some [] \<and> vars (RuntimeVars env) USER_PATH = Some [])"
proof -
  show "vars (RuntimeVars env) PREPEND_PATH = None \<or>
           (vars env PREPEND_PATH = Some [] \<and> vars (RuntimeVars env) PREPEND_PATH = Some [])"
    using assms
    by (cases "vars env PREPEND_PATH")
       (simp_all add: RuntimeVars_def Let_def step_simps sh_get_vars)
  show "vars (RuntimeVars env) APPEND_PATH = None \<or>
           (vars env APPEND_PATH = Some [] \<and> vars (RuntimeVars env) APPEND_PATH = Some [])"
    using assms
    by (cases "vars env APPEND_PATH")
       (simp_all add: RuntimeVars_def Let_def step_simps sh_get_vars)
  show "vars (RuntimeVars env) USER_PATH = None \<or>
           (vars env USER_PATH = Some [] \<and> vars (RuntimeVars env) USER_PATH = Some [])"
    using assms
    by (cases "vars env USER_PATH")
       (simp_all add: RuntimeVars_def Let_def step_simps sh_get_vars)
qed

text \<open>
  Claim C9, as amended.  With none of \<open>PATH\<close> and the three variables read-only:
  when only the prepend variable is set, to a non-empty value \<open>z\<close> (such as \<open>/z\<close>),
  both texts of \<open>99-runtimevars.sh\<close> leave \<open>PATH\<close> equal to \<open>z:\<close> followed by the old
  \<open>PATH\<close> (empty when it was unset) and the prepend variable unset; when none of the
  three is set, both leave every variable as it was; after the scaffold text all
  three variables are unset; after \<open>RuntimeVars\<close> each of the three is unset, or was
  set to the empty value before and still is.
\<close>

theorem runtimevars_protocol:
  "{''PATH'', PREPEND_PATH, APPEND_PATH, USER_PATH} \<inter> read_only env = {} \<longrightarrow>
     (z \<noteq> [] \<and> vars env PREPEND_PATH = Some z \<and> vars env APPEND_PATH = None
        \<and> vars env USER_PATH = None \<longrightarrow>
        vars (base99runtimevarsSh env) ''PATH'' = Some (z @ '':'' @ sh_get env ''PATH'') \<and>
        vars (base99runtimevarsSh env) PREPEND_PATH = None \<and>
        vars (RuntimeVars env) ''PATH'' = Some (z @ '':'' @ sh_get env ''PATH'') \<and>
        vars (RuntimeVars env) PREPEND_PATH = None) \<and>
     (vars env PREPEND_PATH = None \<and> vars env APPEND_PATH = None \<and> vars env USER_PATH = None \<longrightarrow>
        vars (base99runtimevarsSh env) = vars env \<and> vars (RuntimeVars env) = vars env) \<and>
     (vars (base99runtimevarsSh env) PREPEND_PATH = None \<and>
      vars (base99runtimevarsSh env) APPEND_PATH = None \<and>
      vars (base99runtimevarsSh env) USER_PATH = None) \<and>
     (\<forall>k \<in> {PREPEND_PATH, APPEND_PATH, USER_PATH}.
        vars (RuntimeVars env) k = None \<or>
        (vars env k = Some [] \<and> vars (RuntimeVars env) k = Some []))"
proof
  assume ro: "{''PATH'', PREPEND_PATH, APPEND_PATH, USER_PATH} \<inter> read_only env = {}"
  have a: "z \<noteq> [] \<and> vars env PREPEND_PATH = Some z \<and> vars env APPEND_PATH = None
        \<and> vars env USER_PATH = None \<longrightarrow>
        vars (base99runtimevarsSh env) ''PATH'' = Some (z @ '':'' @ sh_get env ''PATH'') \<and>
        vars (base99runtimevarsSh env) PREPEND_PATH = None \<and>
        vars (RuntimeVars env) ''PATH'' = Some (z @ '':'' @ sh_get env ''PATH'') \<and>
        vars (RuntimeVars env) PREPEND_PATH = None"
    using base99_prepend [OF ro, of z] RuntimeVars_prepend [OF ro, of z] base99_unsets(1) [OF ro]
    by blast
  have b: "vars env PREPEND_PATH = None \<and> vars env APPEND_PATH = None \<and> vars env USER_PATH = None \<longrightarrow>
        vars (base99runtimevarsSh env) = vars env \<and> vars (RuntimeVars env) = vars env"
    using runtimevars_noop [of env] by blast
  have c: "vars (base99runtimevarsSh env) PREPEND_PATH = None \<and>
      vars (base99runtimevarsSh env) APPEND_PATH = None \<and>
      vars (base99runtimevarsSh env) USER_PATH = None"
    using base99_unsets [OF ro] by blast
  have d: "\<forall>k \<in> {PREPEND_PATH, APPEND_PATH, USER_PATH}.
        vars (RuntimeVars env) k = None \<or>
        (vars env k = Some [] \<and> vars (RuntimeVars env) k = Some [])"
    using RuntimeVars_after [OF ro] by simp
  show "(z \<noteq> [] \<and> vars env PREPEND_PATH = Some z \<and> vars env APPEND_PATH = None
        \<and> vars env USER_PATH = None \<longrightarrow>
        vars (base99runtimevarsSh env) ''PATH'' = Some (z @ '':'' @ sh_get env ''PATH'') \<and>
        vars (base99runtimevarsSh env) PREPEND_PATH = None \<and>
        vars (RuntimeVars env) ''PATH'' = Some (z @ '':'' @ sh_get env ''PATH'') \<and>
        vars (RuntimeVars env) PREPEND_PATH = None) \<and>
     (vars env PREPEND_PATH = None \<and> vars env APPEND_PATH = None \<and> vars env USER_PATH = None \<longrightarrow>
        vars (base99runtimevarsSh env) = vars env \<and> vars (RuntimeVars env) = vars env) \<and>
     (vars (base99runtimevarsSh env) PREPEND_PATH = None \<and>
      vars (base99runtimevarsSh env) APPEND_PATH = None \<and>
      vars (base99runtimevarsSh env) USER_PATH = None) \<and>
     (\<forall>k \<in> {PREPEND_PATH, APPEND_PATH, USER_PATH}.
        vars (RuntimeVars env) k = None \<or>
        (vars env k = Some [] \<and> vars (RuntimeVars env) k = Some []))"
    by (rule conjI [OF a conjI [OF b conjI [OF c d]]])
qed

theorem runtimevars_protocol_witness:
  "vars (base99runtimevarsSh \<lparr>vars = [''PATH'' \<mapsto> ''/bin'', PREPEND_PATH \<mapsto> ''/z''],
          exported = {''PATH''}, read_only = {}\<rparr>) ''PATH'' = Some ''/z:/bin'' \<and>
   vars (RuntimeVars \<lparr>vars = [''PATH'' \<mapsto> ''/bin'', PREPEND_PATH \<mapsto> ''/z''],
          exported = {''PATH''}, read_only = {}\<rparr>) PREPEND_PATH = None"
  using runtimevars_protocol [of "\<lparr>vars = [''PATH'' \<mapsto> ''/bin'', PREPEND_PATH \<mapsto> ''/z''],
          exported = {''PATH''}, read_only = {}\<rparr>" "''/z''"]
  by (simp add: sh_get_def)

text \<open>\<open>RuntimeVars\<close> started with the override variable set to the empty value
  leaves it set.\<close>

theorem RuntimeVars_empty_counterexample:
  "vars (RuntimeVars \<lparr>vars = [USER_PATH \<mapsto> []], exported = {}, read_only = {}\<rparr>) USER_PATH
     \<noteq> None"
  by (simp add: RuntimeVars_def Let_def step_simps sh_get_vars)

section \<open>Sanitize and restore in the action script\<close>



lemma clear_env_other:
  "k \<notin> fst ` set snap \<Longrightarrow> vars (clear_env snap env) k = vars env k"
  by (induction snap arbitrary: env) (auto simp: clear_env_step_def sh_defs Let_def)





end
